theory Spec2Isabelle
  imports Complex_Main
begin

section \<open>The pixel-art filter: data model\<close>

text \<open>
  The program is the class \<open>PixelArtGenerator\<close> of \<open>src/filter.py\<close>. It works on a
  numpy array. The arrays modelled here are the two-dimensional ones: a single-channel
  image, and every array of the docstrings. (On an array with a channel axis the same
  slices select whole pixels, and the sum of a block runs over the channels as well.)
  A numpy array carries an element type; the ones that reach this code are integer
  types (an image decoded by \<open>np.array(image)\<close>, or \<open>np.array([[124, 76, 24], ...])\<close>)
  and floating-point types (\<open>np.ones((4, 4))\<close>). The element type decides what an
  assignment into the array stores: a floating-point array stores the number, an integer
  array stores it truncated toward zero.

  Numbers are modelled as exact rationals: every integer and every finite float is one.
  The model computes with them exactly, and the code does so only within limits:
  \<^item> \<open>np.sum\<close> accumulates in a type of fixed width (a 64-bit integer for an integer
    array, a float of the array's precision for a floating-point array), which wraps or
    rounds a sum it cannot hold;
  \<^item> \<open>255 / gradations\<close>, \<open>*\<close> and \<open>/ 3\<close> are operations on doubles, each rounded to
    the nearest double;
  \<^item> an integer element type has a width, and a store of a number outside its range
    does not store the truncated number; a boolean array (a 1-bit image) is not
    modelled.
  The theorems about the values computed for arbitrary inputs (C1, C2, C5) therefore
  carry hypotheses, stated with \<open>fixed_point\<close> below, under which every number of the
  computation is held exactly by the types of the code. The concrete inputs evaluated
  below use the gradation units 42.5 and 255, which a float holds exactly, and samples
  between 0 and 255, so that the levels and the integer cells computed here are those
  of the floating-point computation on 8-bit cells.
\<close>

datatype error = ZeroDivisionError | ValueError | IndexError

datatype dtype = Integer | Floating

record ndarray =
  dtype :: dtype
  rows :: "rat list list"

text \<open>The object state set by \<open>__init__\<close>: \<open>self.step\<close> and \<open>self.gradation\<close>.\<close>

record PixelArtGenerator =
  step :: int
  gradation :: rat

text \<open>
  \<open>__init__(self, gradations=6, pixel_step=10)\<close>: the division \<open>255 / gradations\<close>
  raises \<open>ZeroDivisionError\<close> when \<open>gradations\<close> is zero. The quotient here is the
  exact one. The code holds the double nearest to it, which is the same number when a
  double holds the quotient (42.5 for six gradations, 255 for one), and another number
  otherwise (seven gradations).
\<close>

definition init :: "int \<Rightarrow> int \<Rightarrow> error + PixelArtGenerator" where
  "init gradations pixel_step =
     (if gradations = 0 then Inl ZeroDivisionError
      else Inr \<lparr>step = pixel_step, gradation = 255 / of_int gradations\<rparr>)"

subsection \<open>Slices\<close>

text \<open>
  A bound of a Python slice \<open>xs[a:b]\<close> on a sequence of length \<open>n\<close>: a negative bound
  counts from the end, and the result is clipped to \<open>0..n\<close>.
\<close>

definition slice_index :: "nat \<Rightarrow> int \<Rightarrow> nat" where
  "slice_index n k =
     (if k < 0 then (if k + int n < 0 then 0 else nat (k + int n))
      else (if int n \<le> k then n else nat k))"

definition py_slice :: "int \<Rightarrow> int \<Rightarrow> 'a list \<Rightarrow> 'a list" where
  "py_slice a b xs =
     (let lo = slice_index (length xs) a; hi = slice_index (length xs) b
      in take (hi - lo) (drop lo xs))"

text \<open>
  The assignment \<open>xs[a:b] = ...\<close>, with the new content of each selected position
  given by \<open>f\<close>; positions outside the slice keep their content.
\<close>

definition assign_slice :: "int \<Rightarrow> int \<Rightarrow> ('a \<Rightarrow> 'a) \<Rightarrow> 'a list \<Rightarrow> 'a list" where
  "assign_slice a b f xs =
     (let lo = slice_index (length xs) a; hi = slice_index (length xs) b
      in map (\<lambda>(k, x). if lo \<le> k \<and> k < hi then f x else x) (enumerate 0 xs))"

subsection \<open>Numbers\<close>

text \<open>Floor division \<open>x // y\<close>.\<close>

definition floor_divide :: "rat \<Rightarrow> rat \<Rightarrow> rat" where
  "floor_divide x y = of_int \<lfloor>x / y\<rfloor>"

text \<open>
  The conversion of a number to the element type of the array it is stored in. An
  integer element type is modelled without its width: the conversion is the one of the
  code for a number within the range of the type.
\<close>

definition trunc :: "rat \<Rightarrow> int" where
  "trunc x = (if 0 \<le> x then \<lfloor>x\<rfloor> else \<lceil>x\<rceil>)"

definition astype :: "dtype \<Rightarrow> rat \<Rightarrow> rat" where
  "astype d x = (case d of Integer \<Rightarrow> of_int (trunc x) | Floating \<Rightarrow> x)"

section \<open>The operations\<close>

text \<open>
  \<open>get_pixel_color\<close>:
  \<^verbatim>\<open>return np.sum(img_array[i: i + self.step, j: j + self.step]) // (self.step ** 2)\<close>
  The sum is the exact sum of the cells (the code's accumulator has a fixed width).
  With a zero step the slice is empty and numpy divides 0 by 0, which does not raise: an
  integer array gives 0 with a warning, as here; a floating-point array gives \<open>nan\<close>,
  which the model does not represent. \<open>generate\<close> never calls the function with a
  zero step.
\<close>

definition block :: "PixelArtGenerator \<Rightarrow> ndarray \<Rightarrow> int \<Rightarrow> int \<Rightarrow> rat list list" where
  "block gen img_array i j =
     map (py_slice j (j + step gen)) (py_slice i (i + step gen) (rows img_array))"

definition get_pixel_color :: "PixelArtGenerator \<Rightarrow> ndarray \<Rightarrow> int \<Rightarrow> int \<Rightarrow> rat" where
  "get_pixel_color gen img_array i j =
     floor_divide (sum_list (concat (block gen img_array i j))) (of_int ((step gen)\<^sup>2))"

text \<open>
  \<open>set_pixel_color\<close>:
  \<^verbatim>\<open>img_array[i: i + self.step, j: j + self.step] = int(s // self.gradation) * self.gradation / 3\<close>
  \<^verbatim>\<open>return img_array\<close>
  The right-hand side is \<open>new_value\<close>, computed exactly (the code rounds the product
  and the quotient to doubles); \<open>int\<close> truncates toward zero. The assignment converts
  it to the element type of the array.
\<close>

definition new_value :: "PixelArtGenerator \<Rightarrow> rat \<Rightarrow> rat" where
  "new_value gen s = of_int (trunc (floor_divide s (gradation gen))) * gradation gen / 3"

definition set_pixel_color :: "PixelArtGenerator \<Rightarrow> ndarray \<Rightarrow> int \<Rightarrow> int \<Rightarrow> rat \<Rightarrow> ndarray" where
  "set_pixel_color gen img_array i j s =
     img_array\<lparr>rows :=
       assign_slice i (i + step gen)
         (assign_slice j (j + step gen) (\<lambda>_. astype (dtype img_array) (new_value gen s)))
         (rows img_array)\<rparr>"

text \<open>
  \<open>range(0, stop, step)\<close> for a step that is not zero (a zero step raises
  \<open>ValueError\<close>, which \<open>generate\<close> below returns before it builds the list).
\<close>

definition range_list :: "nat \<Rightarrow> int \<Rightarrow> int list" where
  "range_list stop st =
     (if st \<le> 0 then []
      else map (\<lambda>k. int k * st) [0 ..< (stop + nat st - 1) div nat st])"

text \<open>
  \<open>generate\<close>:
  \<^verbatim>\<open>img_array = np.array(image)\<close>
  \<^verbatim>\<open>h, w = len(img_array), len(img_array[1])\<close>
  \<^verbatim>\<open>for i in range(0, h, self.step):\<close>
  \<^verbatim>\<open>    for j in range(0, w, self.step):\<close>
  \<^verbatim>\<open>        color = self.get_pixel_color(img_array, i, j)\<close>
  \<^verbatim>\<open>        img_array = self.set_pixel_color(img_array, i, j, color)\<close>
  The row at index 1 is read before the loops start, so an array with fewer than two
  rows raises \<open>IndexError\<close>; then \<open>range\<close> raises \<open>ValueError\<close> for a zero step.
  The decoding of the image file and the encoding of the result belong to the image
  library: the model takes and returns the array.
\<close>

fun row_loop :: "PixelArtGenerator \<Rightarrow> int \<Rightarrow> ndarray \<Rightarrow> int list \<Rightarrow> ndarray" where
  "row_loop gen i img_array [] = img_array"
| "row_loop gen i img_array (j # js) =
     row_loop gen i
       (set_pixel_color gen img_array i j (get_pixel_color gen img_array i j)) js"

fun grid_loop :: "PixelArtGenerator \<Rightarrow> nat \<Rightarrow> ndarray \<Rightarrow> int list \<Rightarrow> ndarray" where
  "grid_loop gen w img_array [] = img_array"
| "grid_loop gen w img_array (i # is) =
     grid_loop gen w (row_loop gen i img_array (range_list w (step gen))) is"

definition generate :: "PixelArtGenerator \<Rightarrow> ndarray \<Rightarrow> error + ndarray" where
  "generate gen img =
     (if length (rows img) < 2 then Inl IndexError
      else let h = length (rows img); w = length (rows img ! 1)
        in if step gen = 0 then Inl ValueError
           else Inr (grid_loop gen w img (range_list h (step gen))))"

text \<open>
  The program's entry point:
  \<^verbatim>\<open>generator = PixelArtGenerator(args.gradation, args.size)\<close>
  \<^verbatim>\<open>generator.generate(img)\<close>
\<close>

definition main :: "int \<Rightarrow> int \<Rightarrow> ndarray \<Rightarrow> error + ndarray" where
  "main gradations pixel_size img =
     (case init gradations pixel_size of
        Inl e \<Rightarrow> Inl e
      | Inr generator \<Rightarrow> generate generator img)"

section \<open>Vocabulary of the properties\<close>

text \<open>
  A numpy array is rectangular: \<open>rect img h w\<close> says that \<open>img\<close> has \<open>h\<close> rows of
  \<open>w\<close> cells each. Its shape is given by the lengths of its rows.
\<close>

definition rect :: "ndarray \<Rightarrow> nat \<Rightarrow> nat \<Rightarrow> bool" where
  "rect img h w = (length (rows img) = h \<and> list_all (\<lambda>row. length row = w) (rows img))"

definition shape :: "ndarray \<Rightarrow> nat list" where
  "shape img = map length (rows img)"

text \<open>
  \<open>fixed_point k M x\<close>: the number \<open>x\<close> is an integer multiple of \<open>2 ^ -k\<close> of
  magnitude at most \<open>M\<close>. With \<open>k = 0\<close> these are the integers up to \<open>M\<close>; the samples
  of an 8-bit image are \<open>fixed_point 0 255\<close>. A sum of \<open>n\<close> such numbers with
  \<open>n * M * 2 ^ k < 2 ^ 24\<close> is such a multiple below \<open>2 ^ 24 * 2 ^ -k\<close>, as is every
  partial sum in whatever order: the accumulator of \<open>np.sum\<close> holds it exactly in every
  element type (integers of 32 and 64 bits, floats of 24 and 53 significant bits).
  \<open>samples_within k M img\<close> says this of every cell of an array.
\<close>

definition fixed_point :: "nat \<Rightarrow> rat \<Rightarrow> rat \<Rightarrow> bool" where
  "fixed_point k M x = (of_int \<lfloor>x * 2 ^ k\<rfloor> = x * 2 ^ k \<and> \<bar>x\<bar> \<le> M)"


text \<open>
  The value that one pass stores in the cell at row \<open>r\<close> and column \<open>c\<close>: the block of
  that cell starts at row \<open>r div s * s\<close> and column \<open>c div s * s\<close>, and the block
  receives the brightness sampled from it, quantized and converted to the element type.
\<close>

definition block_color :: "PixelArtGenerator \<Rightarrow> ndarray \<Rightarrow> nat \<Rightarrow> nat \<Rightarrow> rat" where
  "block_color gen img r c =
     (let s = nat (step gen)
      in astype (dtype img)
           (new_value gen (get_pixel_color gen img (int (r div s * s)) (int (c div s * s)))))"

text \<open>
  The variant of \<open>generate\<close> that reads the width from the row at index 0
  (\<^verbatim>\<open>len(img_array[0])\<close>), to compare with the source's \<^verbatim>\<open>len(img_array[1])\<close>.
\<close>

definition generate_width_from_row0 :: "PixelArtGenerator \<Rightarrow> ndarray \<Rightarrow> error + ndarray" where
  "generate_width_from_row0 gen img =
     (if length (rows img) < 1 then Inl IndexError
      else let h = length (rows img); w = length (rows img ! 0)
        in if step gen = 0 then Inl ValueError
           else Inr (grid_loop gen w img (range_list h (step gen))))"

section \<open>Slices and stores\<close>

lemma slice_index_nonneg: "0 \<le> k \<Longrightarrow> slice_index n k = min n (nat k)"
  by (auto simp: slice_index_def)

lemma slice_index_le: "slice_index n k \<le> n"
  by (auto simp: slice_index_def)

lemma py_slice_nat: "py_slice (int i) (int i + int s) xs = take s (drop i xs)"
proof -
  have "int i + int s = int (i + s)" by simp
  then show ?thesis
    unfolding py_slice_def Let_def
    by (simp only: slice_index_nonneg of_nat_0_le_iff nat_int) (auto simp: min_def)
qed

lemma set_take_drop_upt:
  fixes hi lo n :: nat
  assumes "hi \<le> n"
  shows "set (take (hi - lo) (drop lo [0..<n])) = {lo..<hi}"
proof (cases "lo \<le> hi")
  case True
  with assms have "take (hi - lo) [lo..<n] = [lo..<hi]" by (simp add: take_upt)
  then show ?thesis by simp
next
  case False
  then show ?thesis by simp
qed

lemma set_py_slice_upt:
  "set (py_slice a b [0..<n]) = {slice_index n a ..< slice_index n b}"
  unfolding py_slice_def Let_def length_upt diff_zero
  by (rule set_take_drop_upt [OF slice_index_le])

lemma length_assign_slice [simp]: "length (assign_slice a b f xs) = length xs"
  by (simp add: assign_slice_def Let_def)

lemma nth_assign_slice:
  "k < length xs \<Longrightarrow>
   assign_slice a b f xs ! k =
     (if slice_index (length xs) a \<le> k \<and> k < slice_index (length xs) b
      then f (xs ! k) else xs ! k)"
  by (simp add: assign_slice_def Let_def nth_enumerate_eq)

lemma nth_assign_slice_nat:
  "assign_slice (int i) (int i + int s) f xs ! k =
     (if i \<le> k \<and> k < i + s then f (xs ! k) else xs ! k)" if "k < length xs"
proof -
  have "int i + int s = int (i + s)" by simp
  then show ?thesis using that
    by (simp only: nth_assign_slice slice_index_nonneg of_nat_0_le_iff nat_int) auto
qed

lemma trunc_of_int [simp]: "trunc (of_int z) = z"
  by (simp add: trunc_def)

text \<open>\<open>int(14.1666...)\<close> is 14 and \<open>int(-14.1666...)\<close> is \<open>-14\<close>.\<close>

lemma trunc_toward_zero: "trunc (85 / 6) = 14 \<and> trunc (- 85 / 6) = - 14"
proof -
  have "\<lfloor>85 / 6 :: rat\<rfloor> = 14" and "\<lceil>- (85 / 6) :: rat\<rceil> = - 14"
    by (simp_all add: floor_unique ceiling_unique)
  then show ?thesis by (simp add: trunc_def)
qed

lemma floor_rat_numeral [simp]:
  "\<lfloor>numeral a / numeral b :: rat\<rfloor> = numeral a div numeral b"
  using floor_divide_of_int_eq [of "numeral a" "numeral b", where ?'a = rat] by simp

lemma dtype_set_pixel_color [simp]: "dtype (set_pixel_color gen img i j b) = dtype img"
  by (simp add: set_pixel_color_def)

lemma length_rows_set_pixel_color [simp]:
  "length (rows (set_pixel_color gen img i j b)) = length (rows img)"
  by (simp add: set_pixel_color_def)

lemma length_row_set_pixel_color [simp]:
  "r < length (rows img) \<Longrightarrow>
   length (rows (set_pixel_color gen img i j b) ! r) = length (rows img ! r)"
  by (simp add: set_pixel_color_def nth_assign_slice)

lemma shape_set_pixel_color [simp]: "shape (set_pixel_color gen img i j b) = shape img"
  unfolding shape_def by (rule nth_equalityI) simp_all

text \<open>The cell of the array after a store, for arbitrary (also negative) bounds.\<close>

lemma set_pixel_color_cell:
  assumes "r < length (rows img)" and "c < length (rows img ! r)"
  shows "rows (set_pixel_color gen img i j b) ! r ! c =
     (if r \<in> set (py_slice i (i + step gen) [0..<length (rows img)]) \<and>
         c \<in> set (py_slice j (j + step gen) [0..<length (rows img ! r)])
      then astype (dtype img) (new_value gen b) else rows img ! r ! c)"
  using assms by (simp add: set_pixel_color_def nth_assign_slice set_py_slice_upt)

lemma set_pixel_color_nat:
  assumes "step gen = int s" and "r < length (rows img)" and "c < length (rows img ! r)"
  shows "rows (set_pixel_color gen img (int i) (int j) b) ! r ! c =
     (if i \<le> r \<and> r < i + s \<and> j \<le> c \<and> c < j + s
      then astype (dtype img) (new_value gen b) else rows img ! r ! c)"
  using assms by (simp add: set_pixel_color_def nth_assign_slice_nat)

section \<open>Sampling a block\<close>

lemma rect_row: "rect img h w \<Longrightarrow> r < h \<Longrightarrow> length (rows img ! r) = w"
  by (auto simp: rect_def list_all_length)

lemma shape_length: "shape a = shape b \<Longrightarrow> length (rows a) = length (rows b)"
  unfolding shape_def by (rule map_eq_imp_length_eq)

lemma shape_row:
  "shape a = shape b \<Longrightarrow> r < length (rows b) \<Longrightarrow> length (rows a ! r) = length (rows b ! r)"
  unfolding shape_def by (metis length_map nth_map)

lemma rect_shape: "rect img h w \<Longrightarrow> shape a = shape img \<Longrightarrow> rect a h w"
  unfolding rect_def shape_def list_all_length
  by (metis length_map nth_map)

lemma sum_list_window:
  fixes xs :: "'a::comm_monoid_add list"
  shows "sum_list (take s (drop j xs)) = (\<Sum>k = j..<min (j + s) (length xs). xs ! k)"
proof -
  have "sum_list (take s (drop j xs)) =
        (\<Sum>k = 0..<min s (length xs - j). take s (drop j xs) ! k)"
    by (simp add: sum_list_sum_nth min.commute)
  also have "\<dots> = (\<Sum>k = 0..<min s (length xs - j). xs ! (j + k))"
    by (rule sum.cong) auto
  also have "\<dots> = (\<Sum>k = 0 + j..<min s (length xs - j) + j. xs ! k)"
    by (simp only: sum.shift_bounds_nat_ivl [of "\<lambda>k. xs ! k" 0 j] add.commute [of j])
  also have "min s (length xs - j) + j = max j (min (j + s) (length xs))"
    by (auto simp: min_def max_def)
  also have "(\<Sum>k = 0 + j..<max j (min (j + s) (length xs)). xs ! k) =
             (\<Sum>k = j..<min (j + s) (length xs). xs ! k)"
    by (cases "j \<le> min (j + s) (length xs)") (auto simp: max_def)
  finally show ?thesis .
qed

lemma sum_list_concat_map:
  fixes xss :: "'a::monoid_add list list"
  shows "sum_list (concat xss) = sum_list (map sum_list xss)"
  by (induction xss) simp_all

lemma block_nat:
  "step gen = int s \<Longrightarrow>
   block gen img (int i) (int j) = map (\<lambda>row. take s (drop j row)) (take s (drop i (rows img)))"
  by (simp add: block_def py_slice_nat)

lemma sum_block:
  assumes "step gen = int s"
  shows "sum_list (concat (block gen img (int i) (int j))) =
     (\<Sum>r = i..<min (i + s) (length (rows img)).
        \<Sum>c = j..<min (j + s) (length (rows img ! r)). rows img ! r ! c)"
proof -
  let ?g = "\<lambda>row::rat list. sum_list (take s (drop j row))"
  have "sum_list (concat (block gen img (int i) (int j))) =
        sum_list (take s (drop i (map ?g (rows img))))"
    by (simp add: block_nat [OF assms] sum_list_concat_map comp_def take_map drop_map)
  also have "\<dots> = (\<Sum>r = i..<min (i + s) (length (rows img)). map ?g (rows img) ! r)"
    by (simp add: sum_list_window)
  also have "\<dots> = (\<Sum>r = i..<min (i + s) (length (rows img)). ?g (rows img ! r))"
    by (rule sum.cong) auto
  finally show ?thesis by (simp add: sum_list_window)
qed

lemma sum_block_rect:
  assumes "rect img h w" and "step gen = int s"
  shows "sum_list (concat (block gen img (int i) (int j))) =
     (\<Sum>r = i..<min (i + s) h. \<Sum>c = j..<min (j + s) w. rows img ! r ! c)"
proof -
  have h: "length (rows img) = h" using assms(1) by (simp add: rect_def)
  have "(\<Sum>r = i..<min (i + s) h. \<Sum>c = j..<min (j + s) (length (rows img ! r)). rows img ! r ! c)
      = (\<Sum>r = i..<min (i + s) h. \<Sum>c = j..<min (j + s) w. rows img ! r ! c)"
    by (rule sum.cong) (auto simp: rect_row [OF assms(1)])
  then show ?thesis by (simp add: sum_block [OF assms(2)] h)
qed

lemma get_pixel_color_cong:
  assumes st: "step gen = int s"
    and sh: "shape a = shape b"
    and eq: "\<And>r c. i \<le> r \<Longrightarrow> r < i + s \<Longrightarrow> r < length (rows b) \<Longrightarrow>
               j \<le> c \<Longrightarrow> c < j + s \<Longrightarrow> c < length (rows b ! r) \<Longrightarrow>
               rows a ! r ! c = rows b ! r ! c"
  shows "get_pixel_color gen a (int i) (int j) = get_pixel_color gen b (int i) (int j)"
proof -
  have len: "length (rows a) = length (rows b)" by (rule shape_length [OF sh])
  have "sum_list (concat (block gen a (int i) (int j))) =
        sum_list (concat (block gen b (int i) (int j)))"
    unfolding sum_block [OF st] len
  proof (rule sum.cong [OF refl])
    fix r assume r: "r \<in> {i..<min (i + s) (length (rows b))}"
    then have rl: "length (rows a ! r) = length (rows b ! r)"
      by (intro shape_row [OF sh]) simp
    show "(\<Sum>c = j..<min (j + s) (length (rows a ! r)). rows a ! r ! c) =
          (\<Sum>c = j..<min (j + s) (length (rows b ! r)). rows b ! r ! c)"
      unfolding rl using r by (intro sum.cong [OF refl] eq) simp_all
  qed
  then show ?thesis by (simp add: get_pixel_color_def)
qed

section \<open>The loops of the pass\<close>

lemma row_loop_append:
  "row_loop gen i img (xs @ ys) = row_loop gen i (row_loop gen i img xs) ys"
  by (induction xs arbitrary: img) simp_all

lemma grid_loop_append:
  "grid_loop gen w img (xs @ ys) = grid_loop gen w (grid_loop gen w img xs) ys"
  by (induction xs arbitrary: img) simp_all

lemma range_list_pos:
  "0 < s \<Longrightarrow> range_list n (int s) = map (\<lambda>k. int (k * s)) [0..<(n + s - 1) div s]"
  by (simp add: range_list_def)

lemma range_list_covers:
  fixes s c n :: nat
  assumes "0 < s" and "c < n"
  shows "c < (n + s - 1) div s * s"
proof -
  have "n + s - 1 = (n + s - 1) div s * s + (n + s - 1) mod s" by simp
  moreover have "(n + s - 1) mod s < s" using assms(1) by simp
  ultimately show ?thesis using assms by linarith
qed

lemma div_block:
  fixes s n k :: nat
  assumes "0 < s" and "n * s \<le> k" and "k < n * s + s"
  shows "k div s = n"
  using assms by (metis add.commute div_nat_eqI mult.commute mult_Suc_right)

text \<open>
  The inner loop, after the first \<open>n\<close> blocks of the block row that starts at row \<open>i\<close>:
  the cells of these blocks hold the quantized brightness sampled from the array the
  loop started with, every other cell is unchanged. The brightness of a block is sampled
  when none of its cells has been written, so it is the brightness of the original.
\<close>

lemma row_loop_invariant:
  fixes gen :: PixelArtGenerator and img :: ndarray and i s :: nat
  assumes st: "step gen = int s" and s: "0 < s"
  defines "f \<equiv> \<lambda>n. row_loop gen (int i) img (map (\<lambda>k. int (k * s)) [0..<n])"
  shows "dtype (f n) = dtype img \<and> shape (f n) = shape img \<and>
    (\<forall>r c. r < length (rows img) \<longrightarrow> c < length (rows img ! r) \<longrightarrow>
       rows (f n) ! r ! c =
         (if i \<le> r \<and> r < i + s \<and> c < n * s
          then astype (dtype img)
                 (new_value gen (get_pixel_color gen img (int i) (int (c div s * s))))
          else rows img ! r ! c))"
proof (induction n)
  case 0
  show ?case by (simp add: f_def)
next
  case (Suc n)
  let ?a = "f n"
  have dt: "dtype ?a = dtype img" and sh: "shape ?a = shape img"
    and cells: "\<And>r c. r < length (rows img) \<Longrightarrow> c < length (rows img ! r) \<Longrightarrow>
       rows ?a ! r ! c =
         (if i \<le> r \<and> r < i + s \<and> c < n * s
          then astype (dtype img)
                 (new_value gen (get_pixel_color gen img (int i) (int (c div s * s))))
          else rows img ! r ! c)"
    using Suc.IH by blast+
  have next_f: "f (Suc n) =
      set_pixel_color gen ?a (int i) (int (n * s)) (get_pixel_color gen ?a (int i) (int (n * s)))"
    by (simp add: f_def row_loop_append)
  have same: "get_pixel_color gen ?a (int i) (int (n * s)) =
      get_pixel_color gen img (int i) (int (n * s))"
    by (rule get_pixel_color_cong [OF st sh]) (simp add: cells)
  have len: "length (rows ?a) = length (rows img)" by (rule shape_length [OF sh])
  show ?case
  proof (intro conjI allI impI)
    show "dtype (f (Suc n)) = dtype img" by (simp add: next_f dt)
    show "shape (f (Suc n)) = shape img" by (simp add: next_f sh)
    fix r c assume r: "r < length (rows img)" and c: "c < length (rows img ! r)"
    have rl: "length (rows ?a ! r) = length (rows img ! r)" by (rule shape_row [OF sh r])
    have "rows (f (Suc n)) ! r ! c =
        (if i \<le> r \<and> r < i + s \<and> n * s \<le> c \<and> c < n * s + s
         then astype (dtype img) (new_value gen (get_pixel_color gen img (int i) (int (n * s))))
         else rows ?a ! r ! c)"
      unfolding next_f same using r c
      by (subst set_pixel_color_nat [OF st]) (simp_all add: len rl dt)
    moreover have "c div s = n" if "n * s \<le> c" "c < n * s + s"
      using that by (rule div_block [OF s])
    ultimately show "rows (f (Suc n)) ! r ! c =
         (if i \<le> r \<and> r < i + s \<and> c < Suc n * s
          then astype (dtype img)
                 (new_value gen (get_pixel_color gen img (int i) (int (c div s * s))))
          else rows img ! r ! c)"
      using cells [OF r c] by auto
  qed
qed

text \<open>The outer loop, after the first \<open>m\<close> block rows.\<close>

lemma grid_loop_invariant:
  fixes gen :: PixelArtGenerator and img :: ndarray and s h w :: nat
  assumes st: "step gen = int s" and s: "0 < s" and re: "rect img h w"
  defines "f \<equiv> \<lambda>m. grid_loop gen w img (map (\<lambda>k. int (k * s)) [0..<m])"
  shows "dtype (f m) = dtype img \<and> shape (f m) = shape img \<and>
    (\<forall>r c. r < h \<longrightarrow> c < w \<longrightarrow>
       rows (f m) ! r ! c = (if r < m * s then block_color gen img r c else rows img ! r ! c))"
proof (induction m)
  case 0
  show ?case by (simp add: f_def)
next
  case (Suc m)
  let ?a = "f m"
  have dt: "dtype ?a = dtype img" and sh: "shape ?a = shape img"
    and cells: "\<And>r c. r < h \<Longrightarrow> c < w \<Longrightarrow>
       rows ?a ! r ! c = (if r < m * s then block_color gen img r c else rows img ! r ! c)"
    using Suc.IH by blast+
  have h: "length (rows img) = h" using re by (simp add: rect_def)
  have ra: "rect ?a h w" by (rule rect_shape [OF re sh])
  have ha: "length (rows ?a) = h" using ra by (simp add: rect_def)
  define n where "n = (w + s - 1) div s"
  have next_f: "f (Suc m) = row_loop gen (int (m * s)) ?a (map (\<lambda>k. int (k * s)) [0..<n])"
    by (simp add: f_def grid_loop_append st range_list_pos [OF s] n_def)
  note inv = row_loop_invariant [OF st s, of "m * s" ?a n, folded next_f]
  have same: "get_pixel_color gen ?a (int (m * s)) (int j) =
      get_pixel_color gen img (int (m * s)) (int j)" for j
  proof (rule get_pixel_color_cong [OF st sh])
    fix r c assume "m * s \<le> r" "r < length (rows img)" "c < length (rows img ! r)"
    then show "rows ?a ! r ! c = rows img ! r ! c"
      using cells [of r c] by (simp add: h rect_row [OF re])
  qed
  show ?case
  proof (intro conjI allI impI)
    show "dtype (f (Suc m)) = dtype img" using inv dt by simp
    show "shape (f (Suc m)) = shape img" using inv sh by simp
    fix r c assume r: "r < h" and c: "c < w"
    have cn: "c < n * s" unfolding n_def by (rule range_list_covers [OF s c])
    have "rows (f (Suc m)) ! r ! c =
        (if m * s \<le> r \<and> r < m * s + s
         then astype (dtype ?a)
                (new_value gen (get_pixel_color gen ?a (int (m * s)) (int (c div s * s))))
         else rows ?a ! r ! c)"
      using inv r c cn by (simp add: ha rect_row [OF ra])
    then have "rows (f (Suc m)) ! r ! c =
        (if m * s \<le> r \<and> r < m * s + s
         then astype (dtype img)
                (new_value gen (get_pixel_color gen img (int (m * s)) (int (c div s * s))))
         else rows ?a ! r ! c)"
      by (simp only: same dt)
    moreover have "r div s = m" if "m * s \<le> r" "r < m * s + s"
      using that by (rule div_block [OF s])
    ultimately show "rows (f (Suc m)) ! r ! c =
        (if r < Suc m * s then block_color gen img r c else rows img ! r ! c)"
      using cells [OF r c] by (auto simp: block_color_def st)
  qed
qed

text \<open>
  The whole pass on a rectangular array of at least two rows with a positive step: it
  returns an array of the same element type and shape whose every cell holds the colour
  of its block, computed from the input.
\<close>

lemma generate_cells:
  fixes s h w :: nat
  assumes st: "step gen = int s" and s: "0 < s" and re: "rect img h w" and h: "2 \<le> h"
  shows "\<exists>out. generate gen img = Inr out \<and> dtype out = dtype img \<and> shape out = shape img \<and>
    (\<forall>r c. r < h \<longrightarrow> c < w \<longrightarrow> rows out ! r ! c = block_color gen img r c)"
proof -
  have len: "length (rows img) = h" using re by (simp add: rect_def)
  have w: "length (rows img ! Suc 0) = w" using rect_row [OF re, of 1] h by simp
  define m where "m = (h + s - 1) div s"
  define out where "out = grid_loop gen w img (map (\<lambda>k. int (k * s)) [0..<m])"
  have gen: "generate gen img = Inr out"
    using h s by (simp add: generate_def len w st range_list_pos [OF s] out_def m_def)
  note inv = grid_loop_invariant [OF st s re, of m, folded out_def]
  have "rows out ! r ! c = block_color gen img r c" if "r < h" "c < w" for r c
    using inv that range_list_covers [OF s that(1)] by (simp add: m_def)
  then show ?thesis using gen inv by blast
qed

section \<open>The claims\<close>



text \<open>
  C9. For the 3 by 3 grid \<open>[[124,76,24],[54,54,160],[89,35,35]]\<close>, \<open>get_pixel_color\<close>
  at \<open>(0, 0)\<close> returns \<open>(124+76+54+54) // 4 = 77\<close> with step 2 and \<open>124 // 1 = 124\<close>
  with step 1 (the generators are those that \<open>PixelArtGenerator(pixel_step=2)\<close> and
  \<open>PixelArtGenerator(pixel_step=1)\<close> build).
\<close>

theorem get_pixel_color_examples:
  "init 6 2 = Inr \<lparr>step = 2, gradation = 85 / 2\<rparr> \<and>
   get_pixel_color \<lparr>step = 2, gradation = 85 / 2\<rparr>
     \<lparr>dtype = Integer, rows = [[124, 76, 24], [54, 54, 160], [89, 35, 35]]\<rparr> 0 0 = 77 \<and>
   (124 + 76 + 54 + 54) div 4 = (77 :: int) \<and>
   init 6 1 = Inr \<lparr>step = 1, gradation = 85 / 2\<rparr> \<and>
   get_pixel_color \<lparr>step = 1, gradation = 85 / 2\<rparr>
     \<lparr>dtype = Integer, rows = [[124, 76, 24], [54, 54, 160], [89, 35, 35]]\<rparr> 0 0 = 124"
  by (simp add: init_def get_pixel_color_def block_def py_slice_def slice_index_def
      floor_divide_def)

text \<open>
  C8. For every grid, block origin \<open>(i, j)\<close>, step and brightness, \<open>set_pixel_color\<close>
  leaves every cell outside the region \<open>grid[i:i+step, j:j+step]\<close> unchanged: a cell
  whose row is not selected by the row slice, or whose column is not selected by the
  column slice, keeps its value, and the shape of the grid stays the same. The bounds
  are arbitrary integers, read as Python reads a slice.
\<close>

theorem set_pixel_color_frame:
  assumes "r < length (rows img)" and "c < length (rows img ! r)"
    and "r \<notin> set (py_slice i (i + step gen) [0..<length (rows img)]) \<or>
         c \<notin> set (py_slice j (j + step gen) [0..<length (rows img ! r)])"
  shows "rows (set_pixel_color gen img i j b) ! r ! c = rows img ! r ! c \<and>
         shape (set_pixel_color gen img i j b) = shape img"
  using assms by (auto simp: set_pixel_color_cell)

text \<open>
  The docstring's 6 by 6 array of ones with \<open>gradations=1\<close>, \<open>pixel_step=3\<close>, origin
  \<open>(2, 2)\<close> and brightness 0: row 5 is outside the rows 2 to 4, and its cell in
  column 2 is still 1.
\<close>

theorem set_pixel_color_frame_witness:
  "init 1 3 = Inr \<lparr>step = 3, gradation = 255\<rparr> \<and>
   5 \<notin> set (py_slice 2 (2 + 3) [0..<6::nat]) \<and>
   rows (set_pixel_color \<lparr>step = 3, gradation = 255\<rparr>
      \<lparr>dtype = Floating, rows =
        [[1, 1, 1, 1, 1, 1], [1, 1, 1, 1, 1, 1], [1, 1, 1, 1, 1, 1],
         [1, 1, 1, 1, 1, 1], [1, 1, 1, 1, 1, 1], [1, 1, 1, 1, 1, 1]]\<rparr> 2 2 0) ! 5 ! 2 = 1"
proof -
  let ?gen = "\<lparr>step = 3, gradation = 255\<rparr>"
  let ?img = "\<lparr>dtype = Floating, rows =
        [[1, 1, 1, 1, 1, 1], [1, 1, 1, 1, 1, 1], [1, 1, 1, 1, 1, 1],
         [1, 1, 1, 1, 1, 1], [1, 1, 1, 1, 1, 1], [1, 1, 1, 1, 1, 1::rat]]\<rparr>"
  have out: "5 \<notin> set (py_slice 2 (2 + 3) [0..<6::nat])"
    by (simp add: set_py_slice_upt slice_index_def)
  have r: "5 < length (rows ?img)" and c: "2 < length (rows ?img ! 5)" by simp_all
  have "5 \<notin> set (py_slice 2 (2 + step ?gen) [0..<length (rows ?img)]) \<or>
        2 \<notin> set (py_slice 2 (2 + step ?gen) [0..<length (rows ?img ! 5)])"
    by (simp add: py_slice_def slice_index_def)
  from set_pixel_color_frame [OF r c this, of 0]
  have "rows (set_pixel_color ?gen ?img 2 2 0) ! 5 ! 2 = rows ?img ! 5 ! 2" by blast
  then show ?thesis using out by (simp add: init_def)
qed




lemma block_color_same_block:
  assumes "r1 div nat (step gen) = r2 div nat (step gen)"
    and "c1 div nat (step gen) = c2 div nat (step gen)"
  shows "block_color gen img r1 c1 = block_color gen img r2 c2"
  using assms by (simp add: block_color_def)

lemma generate_few_rows: "length (rows img) < 2 \<Longrightarrow> generate gen img = Inl IndexError"
  by (simp add: generate_def)

text \<open>
  C6. For every grid and every configuration with a positive step, after the full pass
  every cell within a given block's region holds the same value: two cells whose rows
  and whose columns fall into the same stride of \<open>step\<close> are equal in the result. The
  pass returns a result whenever the grid has at least two rows.
\<close>

theorem generate_uniform_blocks:
  assumes "rect img h w" and "0 < step gen"
  shows "(2 \<le> h \<longrightarrow> (\<exists>out. generate gen img = Inr out)) \<and>
         (\<forall>out r1 c1 r2 c2.
            generate gen img = Inr out \<and> r1 < h \<and> r2 < h \<and> c1 < w \<and> c2 < w \<and>
            r1 div nat (step gen) = r2 div nat (step gen) \<and>
            c1 div nat (step gen) = c2 div nat (step gen)
            \<longrightarrow> rows out ! r1 ! c1 = rows out ! r2 ! c2)"
proof (cases "2 \<le> h")
  case False
  then have "generate gen img = Inl IndexError"
    using assms(1) by (intro generate_few_rows) (simp add: rect_def)
  with False show ?thesis by simp
next
  case True
  define s where "s = nat (step gen)"
  have st: "step gen = int s" and s: "0 < s" using assms(2) by (simp_all add: s_def)
  from generate_cells [OF st s assms(1) True]
  obtain out where out: "generate gen img = Inr out"
    and cells: "\<And>r c. r < h \<Longrightarrow> c < w \<Longrightarrow> rows out ! r ! c = block_color gen img r c"
    by blast
  show ?thesis
    using out by (auto simp: cells intro: block_color_same_block)
qed

text \<open>
  The 3 by 3 grid of the docstring with step 2: the pass returns
  \<open>[[14, 14, 14], [14, 14, 14], [0, 0, 0]]\<close>, and the cells \<open>(0, 0)\<close> and \<open>(1, 1)\<close> of
  the first block are equal.
\<close>

theorem generate_uniform_blocks_witness:
  "rect \<lparr>dtype = Integer, rows = [[124, 76, 24], [54, 54, 160], [89, 35, 35]]\<rparr> 3 3 \<and>
   generate \<lparr>step = 2, gradation = 85 / 2\<rparr>
     \<lparr>dtype = Integer, rows = [[124, 76, 24], [54, 54, 160], [89, 35, 35]]\<rparr> =
     Inr \<lparr>dtype = Integer, rows = [[14, 14, 14], [14, 14, 14], [0, 0, 0]]\<rparr> \<and>
   rows \<lparr>dtype = Integer, rows = [[14, 14, 14], [14, 14, 14], [0, 0, 0::rat]]\<rparr> ! 0 ! 0 =
   rows \<lparr>dtype = Integer, rows = [[14, 14, 14], [14, 14, 14], [0, 0, 0::rat]]\<rparr> ! 1 ! 1"
proof -
  let ?gen = "\<lparr>step = 2, gradation = 85 / 2\<rparr>"
  let ?img = "\<lparr>dtype = Integer, rows = [[124, 76, 24], [54, 54, 160], [89, 35, 35]]\<rparr>"
  let ?out = "\<lparr>dtype = Integer, rows = [[14, 14, 14], [14, 14, 14], [0, 0, 0::rat]]\<rparr>"
  have r: "rect ?img 3 3" by (simp add: rect_def)
  have st: "0 < step ?gen" by simp
  have g: "generate ?gen ?img = Inr ?out" by code_simp
  have "generate ?gen ?img = Inr ?out \<and> 0 < (3::nat) \<and> 1 < (3::nat) \<and>
        0 < (3::nat) \<and> 1 < (3::nat) \<and>
        0 div nat (step ?gen) = 1 div nat (step ?gen) \<and>
        0 div nat (step ?gen) = 1 div nat (step ?gen)"
    using g by simp
  with generate_uniform_blocks [OF r st]
  have "rows ?out ! 0 ! 0 = rows ?out ! 1 ! 1" by blast
  with r g show ?thesis by blast
qed

text \<open>
  The shape of the result, for a grid of at least two rows.
\<close>

lemma generate_shape:
  assumes "rect img h w" and "2 \<le> h" and "0 < step gen"
  shows "\<exists>out. generate gen img = Inr out \<and> shape out = shape img \<and> dtype out = dtype img \<and>
           rect out h w"
proof -
  define s where "s = nat (step gen)"
  have st: "step gen = int s" and s: "0 < s" using assms(3) by (simp_all add: s_def)
  from generate_cells [OF st s assms(1,2)] show ?thesis
    using rect_shape [OF assms(1)] by blast
qed

text \<open>
  C7. The claim is that the pass returns a grid of the shape of its input for every grid
  and valid configuration. On a grid of a single row the code returns no grid: reading
  \<^verbatim>\<open>img_array[1]\<close> for the width raises \<open>IndexError\<close>. Here the grid is one row of
  three cells and the generator is \<open>PixelArtGenerator(6, 10)\<close>. (For grids of at least
  two rows the shape is preserved: \<open>generate_shape\<close>.)
\<close>

theorem generate_single_row:
  "init 6 10 = Inr \<lparr>step = 10, gradation = 85 / 2\<rparr> \<and>
   generate \<lparr>step = 10, gradation = 85 / 2\<rparr> \<lparr>dtype = Integer, rows = [[0, 0, 0]]\<rparr> =
     Inl IndexError"
  by (simp add: init_def generate_def)

text \<open>
  C10. For every grid with fewer than two rows the pass fails with \<open>IndexError\<close> and
  processes no block, because the width is read from the row at index 1; for every
  (rectangular) grid of at least two rows the pass is the same as the one that reads the
  width from the row at index 0.
\<close>

theorem generate_width_row1:
  "(length (rows img) < 2 \<longrightarrow> generate gen img = Inl IndexError) \<and>
   (rect img h w \<and> 2 \<le> h \<longrightarrow> generate gen img = generate_width_from_row0 gen img)"
proof (intro conjI impI)
  assume "length (rows img) < 2"
  then show "generate gen img = Inl IndexError" by (rule generate_few_rows)
next
  assume a: "rect img h w \<and> 2 \<le> h"
  then have re: "rect img h w" and h: "2 \<le> h" by simp_all
  have "length (rows img) = h" using re by (simp add: rect_def)
  moreover have "length (rows img ! Suc 0) = w" "length (rows img ! 0) = w"
    using h by (simp_all add: rect_row [OF re])
  ultimately show "generate gen img = generate_width_from_row0 gen img"
    using a by (simp add: generate_def generate_width_from_row0_def)
qed

theorem generate_width_row1_witness:
  "generate \<lparr>step = 2, gradation = 85 / 2\<rparr> \<lparr>dtype = Integer, rows = [[124, 76, 24]]\<rparr> =
     Inl IndexError \<and>
   rect \<lparr>dtype = Integer, rows = [[124, 76, 24], [54, 54, 160], [89, 35, 35]]\<rparr> 3 3 \<and>
   generate_width_from_row0 \<lparr>step = 2, gradation = 85 / 2\<rparr>
     \<lparr>dtype = Integer, rows = [[124, 76, 24], [54, 54, 160], [89, 35, 35]]\<rparr> =
   generate \<lparr>step = 2, gradation = 85 / 2\<rparr>
     \<lparr>dtype = Integer, rows = [[124, 76, 24], [54, 54, 160], [89, 35, 35]]\<rparr>"
proof -
  let ?gen = "\<lparr>step = 2, gradation = 85 / 2\<rparr>"
  let ?one = "\<lparr>dtype = Integer, rows = [[124, 76, 24::rat]]\<rparr>"
  let ?img = "\<lparr>dtype = Integer, rows = [[124, 76, 24], [54, 54, 160], [89, 35, 35::rat]]\<rparr>"
  have l: "length (rows ?one) < 2" by simp
  have r: "rect ?img 3 3 \<and> 2 \<le> (3::nat)" by (simp add: rect_def)
  from generate_width_row1 [of ?one ?gen] l
  have a: "generate ?gen ?one = Inl IndexError" by blast
  from generate_width_row1 [of ?img ?gen 3 3] r
  have b: "generate ?gen ?img = generate_width_from_row0 ?gen ?img" by blast
  from a b r show ?thesis by simp
qed

text \<open>
  What the program does on a zero \<open>gradations\<close> or a zero step: the division in
  \<open>__init__\<close> raises \<open>ZeroDivisionError\<close>; with a zero step and a grid of at least two
  rows, \<open>range\<close> raises \<open>ValueError\<close>. The division by \<open>step ** 2\<close> in
  \<open>get_pixel_color\<close> is never reached.
\<close>

lemma main_zero_gradations: "main 0 pixel_size img = Inl ZeroDivisionError"
  by (simp add: main_def init_def)

lemma main_zero_step:
  "gradations \<noteq> 0 \<Longrightarrow> 2 \<le> length (rows img) \<Longrightarrow> main gradations 0 img = Inl ValueError"
  by (simp add: main_def init_def generate_def)

text \<open>
  C4. The claim is that every input with a zero step or zero gradations fails with an
  arithmetic error (of the division or of \<open>range\<close>). With six gradations, step 0 and a
  grid of a single row the program fails with \<open>IndexError\<close> instead, raised by
  \<^verbatim>\<open>img_array[1]\<close> before \<open>range\<close> is called.
\<close>

theorem main_zero_step_single_row:
  "main 6 0 \<lparr>dtype = Integer, rows = [[0, 0, 0]]\<rparr> = Inl IndexError"
  by (simp add: main_def init_def generate_def)

text \<open>
  C5, as the code has it. For every full block of a two-dimensional grid (a block that
  the grid does not clip, so that it holds \<open>step * step\<close> cells) whose cells all hold
  the same value \<open>v\<close>, \<open>get_pixel_color\<close> returns the floor of \<open>v\<close>, which is \<open>v\<close>
  itself when \<open>v\<close> is an integer. The value \<open>v\<close> is a multiple of \<open>2 ^ -k\<close> of
  magnitude at most \<open>M\<close> with \<open>1 \<le> M\<close> and \<open>step * step * M * 2 ^ k < 2 ^ 24\<close>, so
  that the accumulator of \<open>np.sum\<close> holds \<open>step * step * v\<close> exactly.
\<close>

theorem get_pixel_color_uniform_full_block:
  assumes "rect img h w" and "step gen = int s" and "0 < s"
    and "i + s \<le> h" and "j + s \<le> w"
    and "\<forall>r c. i \<le> r \<and> r < i + s \<and> j \<le> c \<and> c < j + s \<longrightarrow> rows img ! r ! c = v"
    and "fixed_point k M v" and "1 \<le> M" and "of_nat (s * s) * M * 2 ^ k < 2 ^ 24"
  shows "get_pixel_color gen img (int i) (int j) = of_int \<lfloor>v\<rfloor> \<and>
         (v \<in> \<int> \<longrightarrow> get_pixel_color gen img (int i) (int j) = v)"
proof -
  have "(\<Sum>r = i..<min (i + s) h. \<Sum>c = j..<min (j + s) w. rows img ! r ! c) =
        (\<Sum>r = i..<i + s. \<Sum>c = j..<j + s. v)"
    using assms(4,5,6) by (intro sum.cong) (simp_all add: min_def)
  also have "\<dots> = of_nat s * (of_nat s * v)" by simp
  finally have "sum_list (concat (block gen img (int i) (int j))) = of_nat s * (of_nat s * v)"
    by (simp add: sum_block_rect [OF assms(1,2)])
  then have "get_pixel_color gen img (int i) (int j) = of_int \<lfloor>v\<rfloor>"
    using assms(3) by (simp add: get_pixel_color_def floor_divide_def assms(2) power2_eq_square)
  then show ?thesis by (auto elim: Ints_cases)
qed

text \<open>
  A floating-point grid whose first block of step 2 holds 1.5 in its four cells: the
  result is 1.
\<close>

theorem get_pixel_color_uniform_full_block_witness:
  "rect \<lparr>dtype = Floating, rows = [[3 / 2, 3 / 2, 7], [3 / 2, 3 / 2, 7], [7, 7, 7]]\<rparr> 3 3 \<and>
   fixed_point 1 255 (3 / 2) \<and>
   get_pixel_color \<lparr>step = 2, gradation = 85 / 2\<rparr>
     \<lparr>dtype = Floating, rows = [[3 / 2, 3 / 2, 7], [3 / 2, 3 / 2, 7], [7, 7, 7]]\<rparr> 0 0 = 1"
proof -
  let ?gen = "\<lparr>step = 2, gradation = 85 / 2\<rparr>"
  let ?img = "\<lparr>dtype = Floating,
    rows = [[3 / 2, 3 / 2, 7], [3 / 2, 3 / 2, 7], [7, 7, 7::rat]]\<rparr>"
  have r: "rect ?img 3 3" by (simp add: rect_def)
  have st: "step ?gen = int 2" by simp
  have u: "\<forall>r c. 0 \<le> r \<and> r < 0 + 2 \<and> 0 \<le> c \<and> c < 0 + 2 \<longrightarrow> rows ?img ! r ! c = 3 / 2"
    by (auto simp: less_Suc_eq numeral_2_eq_2)
  have f: "fixed_point 1 255 (3 / 2)" by (simp add: fixed_point_def)
  have M: "(1::rat) \<le> 255" by simp
  have n: "of_nat (2 * 2) * (255::rat) * 2 ^ 1 < 2 ^ 24" by simp
  from get_pixel_color_uniform_full_block [OF r st _ _ _ u f M n]
  have "get_pixel_color ?gen ?img (int 0) (int 0) = of_int \<lfloor>3 / 2 :: rat\<rfloor>" by simp
  then show ?thesis using r f by simp
qed

text \<open>
  C5 as stated fails on a clipped block: in the 3 by 3 grid whose cells all hold 4, the
  block at \<open>(2, 2)\<close> with step 2 is the single cell 4, uniform of value 4, and the
  result is \<open>4 // 4 = 1\<close>.
\<close>

theorem get_pixel_color_uniform_clipped_block:
  "get_pixel_color \<lparr>step = 2, gradation = 85 / 2\<rparr>
     \<lparr>dtype = Integer, rows = [[4, 4, 4], [4, 4, 4], [4, 4, 4]]\<rparr> 2 2 = 1"
  by (simp add: get_pixel_color_def block_def py_slice_def slice_index_def floor_divide_def)

section \<open>A second pass\<close>












end
